theory Spec2Isabelle
  imports Main "HOL-Library.Word"
begin

unbundle bit_operations_syntax

section \<open>LuaSec 0.4.1, context.c: the TLS context binding\<close>

text \<open>
  A shallow embedding of \<^verbatim>\<open>src/context.c\<close>. Every Lua C function of the file becomes a
  HOL function of the state and of the Lua stack it is called with (argument 1 first),
  returning either a fault together with the state the fault leaves, or the state
  and the values the function returns.

  Conventions of the model:
  \<^item> a Lua string is the list of its bytes, which may hold NULs. The C code gets a
    \<^verbatim>\<open>const char *\<close> to these bytes, and the C library reads them up to the first NUL:
    \<open>cstr\<close> gives that prefix, and \<open>strcmp\<close>, \<open>strncpy\<close> and \<open>strlen\<close> go through it;
  \<^item> a Lua number is carried by the text \<^verbatim>\<open>lua_tolstring\<close> renders it as; its floating
    point value plays no role in this file;
  \<^item> a Lua function value is carried by what a call of it without arguments
    (\<^verbatim>\<open>lua_call(L, 0, 1)\<close>) does, which is all the password callback does with it: it
    returns a value, or it raises an error with a message;
  \<^item> the values of the kinds that no function of the file accepts (tables, threads,
    light userdata) are one constructor, \<open>LTable\<close>;
  \<^item> \<^verbatim>\<open>int\<close> is a 32-bit word, \<^verbatim>\<open>long\<close> and \<^verbatim>\<open>unsigned long\<close> are 64-bit words; the flags
    are only ever ORed, so no operation on them wraps;
  \<^item> a raise (\<^verbatim>\<open>lua_error\<close>, \<^verbatim>\<open>luaL_argerror\<close>, \<^verbatim>\<open>luaL_typerror\<close>, an error of a called
    Lua function, a memory error) does not return: the result is the fault and the
    state at the moment of the raise. Undefined behaviour of C (a NULL or
    out-of-bounds access) is the fault \<open>Undefined\<close>.
\<close>

subsection \<open>C strings\<close>

definition NUL :: char where
  "NUL = CHR 0x00"

text \<open>The string the C library reads at a pointer to the bytes \<open>s\<close>.\<close>

definition cstr :: "string \<Rightarrow> string" where
  "cstr s = takeWhile (\<lambda>c. c \<noteq> NUL) s"

text \<open>
  \<^verbatim>\<open>strcmp\<close>: 0 for equal C strings. The code only tests the result for 0; another
  result, of which C fixes the sign alone, is given as 1.
\<close>

definition strcmp :: "string \<Rightarrow> string \<Rightarrow> int" where
  "strcmp a b = (if cstr a = cstr b then 0 else 1)"

definition strlen :: "string \<Rightarrow> nat" where
  "strlen s = length (cstr s)"

text \<open>
  \<^verbatim>\<open>strncpy(buf, src, n)\<close> writes exactly \<open>n\<close> characters: those of the C string at
  \<open>src\<close>, cut at \<open>n\<close>, then NULs.
\<close>

definition strncpy :: "string \<Rightarrow> string \<Rightarrow> nat \<Rightarrow> string" where
  "strncpy buf src n = take n (cstr src @ replicate n NUL) @ drop n buf"

subsection \<open>Lua values and the stack\<close>

datatype lua_value =
    LNil
  | LBoolean bool
  | LNumber string
  | LString string
  | LFunction "string + lua_value"
  | LUserdata nat
  | LTable

datatype lua_type =
    LUA_TNONE | LUA_TNIL | LUA_TBOOLEAN | LUA_TNUMBER | LUA_TSTRING
  | LUA_TTABLE | LUA_TFUNCTION | LUA_TUSERDATA

fun ttype :: "lua_value \<Rightarrow> lua_type" where
  "ttype LNil = LUA_TNIL"
| "ttype (LBoolean b) = LUA_TBOOLEAN"
| "ttype (LNumber n) = LUA_TNUMBER"
| "ttype (LString s) = LUA_TSTRING"
| "ttype (LFunction r) = LUA_TFUNCTION"
| "ttype (LUserdata a) = LUA_TUSERDATA"
| "ttype LTable = LUA_TTABLE"

text \<open>
  The faults of a call: the Lua errors the auxiliary library raises, the error
  \<^verbatim>\<open>lua_error\<close> raises with the message on the stack (also the error of a called Lua
  function), the memory error of the Lua allocator, and the undefined behaviour of C.
\<close>

datatype fault =
    ArgError nat string
  | TypeError nat string
  | RuntimeError string
  | MemoryError
  | Undefined

text \<open>A positive stack index: slot \<open>i\<close> of a stack \<open>st\<close>, absent above the top.\<close>

definition index2adr :: "lua_value list \<Rightarrow> nat \<Rightarrow> lua_value option" where
  "index2adr st i = (if 1 \<le> i \<and> i \<le> length st then Some (st ! (i - 1)) else None)"

definition lua_type :: "lua_value list \<Rightarrow> nat \<Rightarrow> lua_type" where
  "lua_type st i = (case index2adr st i of None \<Rightarrow> LUA_TNONE | Some v \<Rightarrow> ttype v)"

definition lua_gettop :: "lua_value list \<Rightarrow> nat" where
  "lua_gettop st = length st"

text \<open>
  \<^verbatim>\<open>lua_tolstring\<close>: the bytes of a string, the text of a number, NULL otherwise. The
  result is the whole Lua string with its length; what a C library function reads
  through the pointer is its \<open>cstr\<close>.
\<close>

fun lua_tostring :: "lua_value \<Rightarrow> string option" where
  "lua_tostring (LString s) = Some s"
| "lua_tostring (LNumber n) = Some n"
| "lua_tostring v = None"

text \<open>
  \<^verbatim>\<open>luaL_checkstring(L, narg)\<close>: the string of slot \<open>narg\<close>, or the type error of the
  auxiliary library where \<^verbatim>\<open>lua_tolstring\<close> gives NULL (also for an absent slot).
  \<open>checklstring\<close> is the check on the content of the slot. \<^verbatim>\<open>luaL_optstring(L, narg, NULL)\<close>
  gives NULL for an absent slot and for \<^verbatim>\<open>nil\<close>.
\<close>

definition checklstring :: "nat \<Rightarrow> lua_value option \<Rightarrow> fault + string" where
  "checklstring narg slot =
     (case slot of
        None \<Rightarrow> Inl (TypeError narg ''string'')
      | Some v \<Rightarrow>
          (case lua_tostring v of
             None \<Rightarrow> Inl (TypeError narg ''string'')
           | Some s \<Rightarrow> Inr s))"

definition luaL_checkstring :: "lua_value list \<Rightarrow> nat \<Rightarrow> fault + string" where
  "luaL_checkstring st i = checklstring i (index2adr st i)"


text \<open>
  A C function called from Lua returns a count \<open>n\<close>; its results are the \<open>n\<close> values
  on top of the stack, in the order they were pushed.
\<close>

definition lua_return :: "lua_value list \<Rightarrow> nat \<Rightarrow> lua_value list" where
  "lua_return st n = drop (length st - n) st"

subsection \<open>The engine and the state\<close>

text \<open>
  Modelled from the spec: \<^verbatim>\<open>context.h\<close> is not among the sources. It declares the
  userdata block \<^verbatim>\<open>t_context\<close> (the engine pointer and the mode) and the three mode
  values; the spec gives the mode as an enumeration of Unset, Client and Server.
\<close>

datatype ctx_mode = MD_CTX_INVALID | MD_CTX_SERVER | MD_CTX_CLIENT

record t_context =
  ctx_context :: "nat option"
  ctx_mode :: ctx_mode

text \<open>
  A userdata block of the Lua heap: one that carries the metatable
  \<^verbatim>\<open>"SSL:Context"\<close>, or one that does not (which \<^verbatim>\<open>luaL_checkudata\<close> rejects).
\<close>

datatype udata = Untyped | Context t_context

datatype ssl_method = SSLv3_method | TLSv1_method | SSLv23_method

text \<open>
  Modelled from the spec: the engine (OpenSSL) is an external collaborator. Its context
  object holds the verify mode (overwritten by each \<^verbatim>\<open>SSL_CTX_set_verify\<close>), the option
  bits (\<^verbatim>\<open>SSL_CTX_set_options\<close> ORs new bits into the existing ones), the session cache
  mode (overwritten by each \<^verbatim>\<open>SSL_CTX_set_session_cache_mode\<close>), the slot of the
  password hook, the private key in use, and the trust locations, certificate chain,
  cipher list and session id context it has accepted.
\<close>

record ssl_ctx =
  ssl_method :: ssl_method
  verify_mode :: "32 word"
  ssl_options :: "64 word"
  session_cache_mode :: "64 word"
  passwd_cb_set :: bool
  private_key :: "string option"
  verify_locations :: "(string option \<times> string option) option"
  certificate_chain :: "string option"
  cipher_list :: "string option"
  session_id_context :: "string option"

text \<open>
  Modelled from the spec: a key file is unencrypted, encrypted under a passphrase, or
  not a key at all (the file system is outside the binding).
\<close>

datatype pem_file = PlainKey | EncryptedKey string | NotAKey

text \<open>
  Modelled from the spec: the engine calls that succeed or fail with a reason which
  the binding only passes on. What the engine rejects is a table of the state, from
  the call to the reason of its error queue.
\<close>

datatype engine_call =
    Load_verify_locations "string option" "string option"
  | Use_certificate_chain_file string
  | Set_cipher_list string
  | Set_session_id_context string

text \<open>
  The state a call runs in: the userdata blocks of the Lua heap by address, the
  engine's context objects by address (\<open>None\<close> once released), the log of the
  addresses handed to \<^verbatim>\<open>SSL_CTX_free\<close>, whether Lua's allocator has no memory for a
  new userdata block (the one allocation of Lua whose result the code tests; the
  pushes of booleans and of the short messages are taken to succeed), whether the
  engine is out of memory, the key files, and the calls the engine rejects.
\<close>

record state =
  userdata :: "udata list"
  ssl_ctxs :: "ssl_ctx option list"
  free_log :: "nat list"
  lua_memory_full :: bool
  out_of_memory :: bool
  files :: "(string \<times> pem_file) list"
  engine_rejects :: "(engine_call \<times> string) list"

text \<open>Modelled from the spec: the constants of \<^verbatim>\<open>openssl/ssl.h\<close>, with OpenSSL's values.\<close>

definition SSL_VERIFY_NONE :: "32 word" where "SSL_VERIFY_NONE = 0"
definition SSL_VERIFY_PEER :: "32 word" where "SSL_VERIFY_PEER = 1"
definition SSL_VERIFY_FAIL_IF_NO_PEER_CERT :: "32 word" where "SSL_VERIFY_FAIL_IF_NO_PEER_CERT = 2"
definition SSL_VERIFY_CLIENT_ONCE :: "32 word" where "SSL_VERIFY_CLIENT_ONCE = 4"

definition SSL_SESS_CACHE_OFF :: "64 word" where "SSL_SESS_CACHE_OFF = 0"
definition SSL_SESS_CACHE_CLIENT :: "64 word" where "SSL_SESS_CACHE_CLIENT = 1"
definition SSL_SESS_CACHE_SERVER :: "64 word" where "SSL_SESS_CACHE_SERVER = 2"
definition SSL_SESS_CACHE_BOTH :: "64 word" where "SSL_SESS_CACHE_BOTH = 3"
definition SSL_SESS_CACHE_NO_AUTO_CLEAR :: "64 word" where "SSL_SESS_CACHE_NO_AUTO_CLEAR = 128"
definition SSL_SESS_CACHE_NO_INTERNAL_LOOKUP :: "64 word" where "SSL_SESS_CACHE_NO_INTERNAL_LOOKUP = 256"
definition SSL_SESS_CACHE_NO_INTERNAL_STORE :: "64 word" where "SSL_SESS_CACHE_NO_INTERNAL_STORE = 512"
definition SSL_SESS_CACHE_NO_INTERNAL :: "64 word" where "SSL_SESS_CACHE_NO_INTERNAL = 768"

definition PEM_BUFSIZE :: nat where "PEM_BUFSIZE = 1024"

text \<open>The engine object behind a pointer: none behind NULL or a released address.\<close>

definition deref :: "state \<Rightarrow> nat option \<Rightarrow> ssl_ctx option" where
  "deref s p =
     (case p of
        None \<Rightarrow> None
      | Some a \<Rightarrow> (if a < length (ssl_ctxs s) then ssl_ctxs s ! a else None))"

text \<open>
  An engine call that writes the context object: undefined on a pointer with no
  object behind it.
\<close>

definition with_ctx :: "state \<Rightarrow> nat option \<Rightarrow> (ssl_ctx \<Rightarrow> ssl_ctx) \<Rightarrow> fault + state" where
  "with_ctx s p f =
     (case p of
        None \<Rightarrow> Inl Undefined
      | Some a \<Rightarrow>
          (case deref s p of
             None \<Rightarrow> Inl Undefined
           | Some c \<Rightarrow> Inr (s\<lparr>ssl_ctxs := (ssl_ctxs s)[a := Some (f c)]\<rparr>)))"

definition SSL_CTX_set_verify :: "state \<Rightarrow> nat option \<Rightarrow> 32 word \<Rightarrow> fault + state" where
  "SSL_CTX_set_verify s p flag = with_ctx s p (\<lambda>c. c\<lparr>verify_mode := flag\<rparr>)"

definition SSL_CTX_set_options :: "state \<Rightarrow> nat option \<Rightarrow> 64 word \<Rightarrow> fault + state" where
  "SSL_CTX_set_options s p flag = with_ctx s p (\<lambda>c. c\<lparr>ssl_options := ssl_options c OR flag\<rparr>)"

definition SSL_CTX_set_session_cache_mode :: "state \<Rightarrow> nat option \<Rightarrow> 64 word \<Rightarrow> fault + state" where
  "SSL_CTX_set_session_cache_mode s p m = with_ctx s p (\<lambda>c. c\<lparr>session_cache_mode := m\<rparr>)"

definition SSL_CTX_set_default_passwd_cb :: "state \<Rightarrow> nat option \<Rightarrow> bool \<Rightarrow> fault + state" where
  "SSL_CTX_set_default_passwd_cb s p b = with_ctx s p (\<lambda>c. c\<lparr>passwd_cb_set := b\<rparr>)"






text \<open>
  \<^verbatim>\<open>SSL_CTX_new\<close>: a new context object with the engine's defaults, at a new address;
  NULL when the engine cannot allocate.
\<close>

definition default_ctx :: "ssl_method \<Rightarrow> ssl_ctx" where
  "default_ctx m =
     \<lparr>ssl_method = m, verify_mode = SSL_VERIFY_NONE, ssl_options = 0,
      session_cache_mode = SSL_SESS_CACHE_SERVER, passwd_cb_set = False,
      private_key = None, verify_locations = None, certificate_chain = None,
      cipher_list = None, session_id_context = None\<rparr>"

definition SSL_CTX_new :: "state \<Rightarrow> ssl_method \<Rightarrow> state \<times> nat option" where
  "SSL_CTX_new s m =
     (if out_of_memory s then (s, None)
      else (s\<lparr>ssl_ctxs := ssl_ctxs s @ [Some (default_ctx m)]\<rparr>, Some (length (ssl_ctxs s))))"

text \<open>
  \<^verbatim>\<open>SSL_CTX_free\<close>: the object behind the address is released, and the call is logged,
  so that a second release of one address shows in the log.
\<close>

definition SSL_CTX_free :: "state \<Rightarrow> nat \<Rightarrow> state" where
  "SSL_CTX_free s a = s\<lparr>ssl_ctxs := (ssl_ctxs s)[a := None], free_log := free_log s @ [a]\<rparr>"

subsection \<open>Auxiliary functions\<close>

text \<open>
  \<^verbatim>\<open>checkctx\<close>: \<^verbatim>\<open>luaL_checkudata(L, idx, "SSL:Context")\<close>, the address of the block and
  the block, or a type error (also for an address with no block, which no Lua value
  holds).
\<close>

definition checkctx :: "state \<Rightarrow> lua_value list \<Rightarrow> nat \<Rightarrow> fault + (nat \<times> t_context)" where
  "checkctx s st idx =
     (case index2adr st idx of
        Some (LUserdata a) \<Rightarrow>
          (if a < length (userdata s) then
             (case userdata s ! a of
                Context c \<Rightarrow> Inr (a, c)
              | Untyped \<Rightarrow> Inl (TypeError idx ''SSL:Context''))
           else Inl (TypeError idx ''SSL:Context''))
      | _ \<Rightarrow> Inl (TypeError idx ''SSL:Context''))"

definition ctx_getcontext :: "state \<Rightarrow> lua_value list \<Rightarrow> nat \<Rightarrow> fault + nat option" where
  "ctx_getcontext s st idx =
     (case checkctx s st idx of
        Inl e \<Rightarrow> Inl e
      | Inr (a, c) \<Rightarrow> Inr (ctx_context c))"

text \<open>
  Modelled from the spec: \<^verbatim>\<open>options.h\<close> (the table \<^verbatim>\<open>ssl_options\<close> of names and codes,
  closed by an entry with a NULL name) is not among the sources; the table is a
  parameter of \<open>set_option_flag\<close>, given by its entries before the closing one.
\<close>

record ssl_option_t =
  opt_name :: string
  opt_code :: "64 word"

fun set_option_flag :: "ssl_option_t list \<Rightarrow> string \<Rightarrow> 64 word \<Rightarrow> bool \<times> 64 word" where
  "set_option_flag [] opt flag = (False, flag)"
| "set_option_flag (p # ps) opt flag =
     (if strcmp opt (opt_name p) = 0 then (True, flag OR opt_code p)
      else set_option_flag ps opt flag)"

definition str2method :: "string \<Rightarrow> ssl_method option" where
  "str2method method =
     (if strcmp method ''sslv3'' = 0 then Some SSLv3_method
      else if strcmp method ''tlsv1'' = 0 then Some TLSv1_method
      else if strcmp method ''sslv23'' = 0 then Some SSLv23_method
      else None)"

definition set_verify_flag :: "string \<Rightarrow> 32 word \<Rightarrow> bool \<times> 32 word" where
  "set_verify_flag str flag =
     (if strcmp str ''none'' = 0 then (True, flag OR SSL_VERIFY_NONE)
      else if strcmp str ''peer'' = 0 then (True, flag OR SSL_VERIFY_PEER)
      else if strcmp str ''client_once'' = 0 then (True, flag OR SSL_VERIFY_CLIENT_ONCE)
      else if strcmp str ''fail_if_no_peer_cert'' = 0
        then (True, flag OR SSL_VERIFY_FAIL_IF_NO_PEER_CERT)
      else (False, flag))"

subsection \<open>The password callback\<close>

text \<open>
  The body of \<^verbatim>\<open>case LUA_TSTRING\<close>, which \<^verbatim>\<open>case LUA_TFUNCTION\<close> falls into: the string
  on top of the stack (\<^verbatim>\<open>lua_tostring(L, -1)\<close>, which turns a number into its text in
  place) is copied, the last character of the buffer is set to NUL and the length
  of the buffer's string is returned. The buffer \<open>buf\<close> is the memory the engine
  hands over and \<open>sz\<close> the \<^verbatim>\<open>size\<close> of the call; a size that is not positive or
  exceeds the buffer, and a NULL source, are undefined behaviour.
\<close>

definition copy_passwd ::
  "lua_value list \<Rightarrow> string \<Rightarrow> int \<Rightarrow> fault + (lua_value list \<times> string \<times> int)" where
  "copy_passwd st buf sz =
     (if st = [] then Inl Undefined
      else
        (case lua_tostring (last st) of
           None \<Rightarrow> Inl Undefined
         | Some src \<Rightarrow>
             (if 0 < sz \<and> nat sz \<le> length buf then
                (let buf1 = strncpy buf src (nat sz);
                     buf2 = buf1[nat sz - 1 := NUL]
                 in Inr (butlast st @ [LString src], buf2, int (strlen buf2)))
              else Inl Undefined)))"

text \<open>
  \<^verbatim>\<open>passwd_cb\<close>, with the stack of the \<^verbatim>\<open>lua_State\<close> it gets as \<^verbatim>\<open>udata\<close>. The \<^verbatim>\<open>switch\<close> on
  \<^verbatim>\<open>lua_type(L, 3)\<close> is the case distinction on the value in slot 3. A function is
  called, unprotected: its error is raised through the hook, and its one result
  stays on the stack. A string goes to the copy. Every other value, and an absent
  slot, returns 0 and leaves the buffer alone.
\<close>

definition passwd_cb ::
  "lua_value list \<Rightarrow> string \<Rightarrow> int \<Rightarrow> int \<Rightarrow> fault + (lua_value list \<times> string \<times> int)" where
  "passwd_cb st buf sz flag =
     (case index2adr st 3 of
        Some (LFunction (Inl msg)) \<Rightarrow> Inl (RuntimeError msg)
      | Some (LFunction (Inr r)) \<Rightarrow>
          (if ttype r \<noteq> LUA_TSTRING then Inr (st @ [r], buf, 0)
           else copy_passwd (st @ [r]) buf sz)
      | Some (LString s) \<Rightarrow> copy_passwd st buf sz
      | _ \<Rightarrow> Inr (st, buf, 0))"

subsection \<open>Lua functions\<close>

text \<open>
  \<^verbatim>\<open>lua_newuserdata\<close>: a new block at a new address, with no metatable yet. When the
  allocator fails Lua raises a memory error and does not return NULL, so the check
  \<^verbatim>\<open>if (!ctx)\<close> of \<^verbatim>\<open>create\<close> never fires.
\<close>

definition lua_newuserdata :: "state \<Rightarrow> fault + (state \<times> nat)" where
  "lua_newuserdata s =
     (if lua_memory_full s then Inl MemoryError
      else Inr (s\<lparr>userdata := userdata s @ [Untyped]\<rparr>, length (userdata s)))"

definition create :: "state \<Rightarrow> lua_value list \<Rightarrow> fault \<times> state + state \<times> lua_value list" where
  "create s st =
     (case luaL_checkstring st 1 of
        Inl e \<Rightarrow> Inl (e, s)
      | Inr name \<Rightarrow>
          (case str2method name of
             None \<Rightarrow> Inr (s, lua_return (st @ [LNil, LString ''invalid protocol'']) 2)
           | Some method \<Rightarrow>
               (case lua_newuserdata s of
                  Inl e \<Rightarrow> Inl (e, s)
                | Inr (s1, a) \<Rightarrow>
                    (case SSL_CTX_new s1 method of
                       (s2, None) \<Rightarrow>
                         Inr (s2, lua_return
                                (st @ [LUserdata a, LNil, LString ''error creating context'']) 2)
                     | (s2, Some p) \<Rightarrow>
                         Inr (s2\<lparr>userdata := (userdata s2)
                                  [a := Context \<lparr>ctx_context = Some p, ctx_mode = MD_CTX_INVALID\<rparr>]\<rparr>,
                              lua_return (st @ [LUserdata a]) 1)))))"



text \<open>
  Modelled from the spec: \<^verbatim>\<open>SSL_CTX_use_PrivateKey_file\<close> belongs to the engine. An
  unencrypted key loads; an encrypted one loads when the installed password hook
  supplies its passphrase, and fails when no hook is installed or the hook supplies
  nothing; a missing file and a file that is not a key fail. The hook is called with
  the stack of the Lua state, and an error raised in it passes through the engine.
  The third component of the result is the engine's reason on failure.
\<close>

definition SSL_CTX_use_PrivateKey_file ::
  "state \<Rightarrow> lua_value list \<Rightarrow> nat option \<Rightarrow> string
    \<Rightarrow> fault + (state \<times> lua_value list \<times> string option)" where
  "SSL_CTX_use_PrivateKey_file s st p filename =
     (case deref s p of
        None \<Rightarrow> Inl Undefined
      | Some c \<Rightarrow>
          (case map_of (files s) (cstr filename) of
             None \<Rightarrow> Inr (s, st, Some ''system lib'')
           | Some NotAKey \<Rightarrow> Inr (s, st, Some ''no start line'')
           | Some PlainKey \<Rightarrow>
               (case with_ctx s p (\<lambda>c. c\<lparr>private_key := Some (cstr filename)\<rparr>) of
                  Inl e \<Rightarrow> Inl e
                | Inr s' \<Rightarrow> Inr (s', st, None))
           | Some (EncryptedKey pw) \<Rightarrow>
               (if passwd_cb_set c then
                  (case passwd_cb st (replicate PEM_BUFSIZE NUL) (int PEM_BUFSIZE) 0 of
                     Inl e \<Rightarrow> Inl e
                   | Inr (st', buf, n) \<Rightarrow>
                       (if n \<le> 0 then Inr (s, st', Some ''bad password read'')
                        else if take (nat n) buf = pw then
                          (case with_ctx s p (\<lambda>c. c\<lparr>private_key := Some (cstr filename)\<rparr>) of
                             Inl e \<Rightarrow> Inl e
                           | Inr s' \<Rightarrow> Inr (s', st', None))
                        else Inr (s, st', Some ''bad decrypt'')))
                else Inr (s, st, Some ''bad password read''))))"

text \<open>
  The body \<^verbatim>\<open>case LUA_TNIL\<close> of \<^verbatim>\<open>load_key\<close>, which the string and function cases fall
  into after installing the hook. A raise inside the engine call leaves the state
  of that moment: the two calls that remove the hook are not reached.
\<close>

definition load_key_file ::
  "state \<Rightarrow> lua_value list \<Rightarrow> nat option \<Rightarrow> string
    \<Rightarrow> fault \<times> state + state \<times> lua_value list" where
  "load_key_file s st ctx filename =
     (case SSL_CTX_use_PrivateKey_file s st ctx filename of
        Inl e \<Rightarrow> Inl (e, s)
      | Inr (s1, st1, r) \<Rightarrow>
          (case SSL_CTX_set_default_passwd_cb s1 ctx False of
             Inl e \<Rightarrow> Inl (e, s1)
           | Inr s2 \<Rightarrow>
               (case r of
                  None \<Rightarrow> Inr (s2, lua_return (st1 @ [LBoolean True]) 1)
                | Some reason \<Rightarrow>
                    Inr (s2, lua_return
                           (st1 @ [LBoolean False,
                                   LString (''error loading private key ('' @ reason @ '')'')]) 2))))"

definition load_key :: "state \<Rightarrow> lua_value list \<Rightarrow> fault \<times> state + state \<times> lua_value list" where
  "load_key s st =
     (case ctx_getcontext s st 1 of
        Inl e \<Rightarrow> Inl (e, s)
      | Inr ctx \<Rightarrow>
          (case luaL_checkstring st 2 of
             Inl e \<Rightarrow> Inl (e, s)
           | Inr filename \<Rightarrow>
               (case lua_type st 3 of
                  LUA_TSTRING \<Rightarrow>
                    (case SSL_CTX_set_default_passwd_cb s ctx True of
                       Inl e \<Rightarrow> Inl (e, s)
                     | Inr s1 \<Rightarrow> load_key_file s1 st ctx filename)
                | LUA_TFUNCTION \<Rightarrow>
                    (case SSL_CTX_set_default_passwd_cb s ctx True of
                       Inl e \<Rightarrow> Inl (e, s)
                     | Inr s1 \<Rightarrow> load_key_file s1 st ctx filename)
                | LUA_TNIL \<Rightarrow> load_key_file s st ctx filename
                | _ \<Rightarrow> Inl (RuntimeError ''invalid callback value'', s))))"


text \<open>
  The loop \<^verbatim>\<open>for (i = 2; i <= max; i++)\<close> of \<^verbatim>\<open>set_verify\<close>, over the stack slots from
  slot \<open>i\<close> on: \<open>(False, flag)\<close> is the early return at an option that
  \<open>set_verify_flag\<close> rejects.
\<close>

fun set_verify_loop :: "lua_value list \<Rightarrow> nat \<Rightarrow> 32 word \<Rightarrow> fault + (bool \<times> 32 word)" where
  "set_verify_loop [] i flag = Inr (True, flag)"
| "set_verify_loop (v # vs) i flag =
     (case checklstring i (Some v) of
        Inl e \<Rightarrow> Inl e
      | Inr str \<Rightarrow>
          (case set_verify_flag str flag of
             (False, flag') \<Rightarrow> Inr (False, flag')
           | (True, flag') \<Rightarrow> set_verify_loop vs (Suc i) flag'))"

definition set_verify :: "state \<Rightarrow> lua_value list \<Rightarrow> fault \<times> state + state \<times> lua_value list" where
  "set_verify s st =
     (case ctx_getcontext s st 1 of
        Inl e \<Rightarrow> Inl (e, s)
      | Inr ctx \<Rightarrow>
          (if lua_gettop st > 1 then
             (case set_verify_loop (drop 1 st) 2 0 of
                Inl e \<Rightarrow> Inl (e, s)
              | Inr (False, flag) \<Rightarrow>
                  Inr (s, lua_return (st @ [LBoolean False, LString ''invalid verify option'']) 2)
              | Inr (True, flag) \<Rightarrow>
                  (case SSL_CTX_set_verify s ctx flag of
                     Inl e \<Rightarrow> Inl (e, s)
                   | Inr s' \<Rightarrow> Inr (s', lua_return (st @ [LBoolean True]) 1)))
           else Inr (s, lua_return (st @ [LBoolean True]) 1)))"

text \<open>The loop of \<^verbatim>\<open>set_options\<close>, in the same way, over the option table \<open>T\<close>.\<close>

fun set_options_loop ::
  "ssl_option_t list \<Rightarrow> lua_value list \<Rightarrow> nat \<Rightarrow> 64 word \<Rightarrow> fault + (bool \<times> 64 word)" where
  "set_options_loop T [] i flag = Inr (True, flag)"
| "set_options_loop T (v # vs) i flag =
     (case checklstring i (Some v) of
        Inl e \<Rightarrow> Inl e
      | Inr str \<Rightarrow>
          (case set_option_flag T str flag of
             (False, flag') \<Rightarrow> Inr (False, flag')
           | (True, flag') \<Rightarrow> set_options_loop T vs (Suc i) flag'))"

definition set_options ::
  "ssl_option_t list \<Rightarrow> state \<Rightarrow> lua_value list
    \<Rightarrow> fault \<times> state + state \<times> lua_value list" where
  "set_options T s st =
     (case ctx_getcontext s st 1 of
        Inl e \<Rightarrow> Inl (e, s)
      | Inr ctx \<Rightarrow>
          (if lua_gettop st > 1 then
             (case set_options_loop T (drop 1 st) 2 0 of
                Inl e \<Rightarrow> Inl (e, s)
              | Inr (False, flag) \<Rightarrow>
                  Inr (s, lua_return (st @ [LBoolean False, LString ''invalid option'']) 2)
              | Inr (True, flag) \<Rightarrow>
                  (case SSL_CTX_set_options s ctx flag of
                     Inl e \<Rightarrow> Inl (e, s)
                   | Inr s' \<Rightarrow> Inr (s', lua_return (st @ [LBoolean True]) 1)))
           else Inr (s, lua_return (st @ [LBoolean True]) 1)))"

definition set_mode :: "state \<Rightarrow> lua_value list \<Rightarrow> fault \<times> state + state \<times> lua_value list" where
  "set_mode s st =
     (case checkctx s st 1 of
        Inl e \<Rightarrow> Inl (e, s)
      | Inr (a, ctx) \<Rightarrow>
          (case luaL_checkstring st 2 of
             Inl e \<Rightarrow> Inl (e, s)
           | Inr str \<Rightarrow>
               (if strcmp ''server'' str = 0 then
                  Inr (s\<lparr>userdata := (userdata s)[a := Context (ctx\<lparr>ctx_mode := MD_CTX_SERVER\<rparr>)]\<rparr>,
                       lua_return (st @ [LBoolean True]) 1)
                else if strcmp ''client'' str = 0 then
                  Inr (s\<lparr>userdata := (userdata s)[a := Context (ctx\<lparr>ctx_mode := MD_CTX_CLIENT\<rparr>)]\<rparr>,
                       lua_return (st @ [LBoolean True]) 1)
                else Inr (s, lua_return (st @ [LBoolean False, LString ''invalid mode'']) 1))))"


text \<open>
  The \<^verbatim>\<open>switch\<close> of \<^verbatim>\<open>set_session_cache_mode\<close> on the slot \<open>i\<close>: a boolean, one of the
  eight names, or the argument error of the \<^verbatim>\<open>default\<close> label, which a string with
  another name falls into.
\<close>

fun session_cache_arg :: "nat \<Rightarrow> lua_value \<Rightarrow> 64 word \<Rightarrow> fault + 64 word" where
  "session_cache_arg i (LBoolean b) mode =
     (if b then Inr (mode OR SSL_SESS_CACHE_BOTH) else Inr (mode OR SSL_SESS_CACHE_OFF))"
| "session_cache_arg i (LString str) mode =
     (if strcmp ''off'' str = 0 then Inr (mode OR SSL_SESS_CACHE_OFF)
      else if strcmp ''client'' str = 0 then Inr (mode OR SSL_SESS_CACHE_CLIENT)
      else if strcmp ''server'' str = 0 then Inr (mode OR SSL_SESS_CACHE_SERVER)
      else if strcmp ''both'' str = 0 then Inr (mode OR SSL_SESS_CACHE_BOTH)
      else if strcmp ''no_auto_clear'' str = 0 then Inr (mode OR SSL_SESS_CACHE_NO_AUTO_CLEAR)
      else if strcmp ''no_internal_lookup'' str = 0
        then Inr (mode OR SSL_SESS_CACHE_NO_INTERNAL_LOOKUP)
      else if strcmp ''no_internal_store'' str = 0
        then Inr (mode OR SSL_SESS_CACHE_NO_INTERNAL_STORE)
      else if strcmp ''no_internal'' str = 0 then Inr (mode OR SSL_SESS_CACHE_NO_INTERNAL)
      else Inl (ArgError i ''unknown session cache mode''))"
| "session_cache_arg i v mode = Inl (ArgError i ''unknown session cache mode'')"

fun set_session_cache_mode_loop :: "lua_value list \<Rightarrow> nat \<Rightarrow> 64 word \<Rightarrow> fault + 64 word" where
  "set_session_cache_mode_loop [] i mode = Inr mode"
| "set_session_cache_mode_loop (v # vs) i mode =
     (case session_cache_arg i v mode of
        Inl e \<Rightarrow> Inl e
      | Inr mode' \<Rightarrow> set_session_cache_mode_loop vs (Suc i) mode')"

definition set_session_cache_mode ::
  "state \<Rightarrow> lua_value list \<Rightarrow> fault \<times> state + state \<times> lua_value list" where
  "set_session_cache_mode s st =
     (case ctx_getcontext s st 1 of
        Inl e \<Rightarrow> Inl (e, s)
      | Inr ctx \<Rightarrow>
          (case set_session_cache_mode_loop (drop 1 st) 2 0 of
             Inl e \<Rightarrow> Inl (e, s)
           | Inr mode \<Rightarrow>
               (case SSL_CTX_set_session_cache_mode s ctx mode of
                  Inl e \<Rightarrow> Inl (e, s)
                | Inr s' \<Rightarrow> Inr (s', lua_return (st @ [LBoolean True]) 1))))"

subsection \<open>Metamethods\<close>

definition meth_destroy :: "state \<Rightarrow> lua_value list \<Rightarrow> fault \<times> state + state \<times> lua_value list" where
  "meth_destroy s st =
     (case checkctx s st 1 of
        Inl e \<Rightarrow> Inl (e, s)
      | Inr (a, ctx) \<Rightarrow>
          (case ctx_context ctx of
             Some p \<Rightarrow>
               (let s1 = SSL_CTX_free s p
                in Inr (s1\<lparr>userdata := (userdata s1)[a := Context (ctx\<lparr>ctx_context := None\<rparr>)]\<rparr>,
                        lua_return st 0))
           | None \<Rightarrow> Inr (s, lua_return st 0)))"

subsection \<open>Concrete states\<close>

text \<open>
  The engine object behind a handle, for reading what a call committed to the
  engine.
\<close>

definition handle_ctx :: "state \<Rightarrow> nat \<Rightarrow> ssl_ctx option" where
  "handle_ctx s h =
     (if h < length (userdata s) then
        (case userdata s ! h of
           Context c \<Rightarrow> deref s (ctx_context c)
         | Untyped \<Rightarrow> None)
      else None)"

text \<open>
  The state before any context exists, with two key files and a cipher list the
  engine rejects; the state after \<^verbatim>\<open>create("tlsv1")\<close> in it; and that state with a verify
  mode, option bits and the engine's default session cache mode in place.
\<close>

definition initial_state :: state where
  "initial_state =
     \<lparr>userdata = [], ssl_ctxs = [], free_log = [], lua_memory_full = False,
      out_of_memory = False,
      files = [(''key.pem'', PlainKey), (''enc.pem'', EncryptedKey ''secret'')],
      engine_rejects = [(Set_cipher_list ''NONE'', ''no cipher match'')]\<rparr>"

definition fresh_state :: state where
  "fresh_state =
     \<lparr>userdata = [Context \<lparr>ctx_context = Some 0, ctx_mode = MD_CTX_INVALID\<rparr>],
      ssl_ctxs = [Some (default_ctx TLSv1_method)],
      free_log = [], lua_memory_full = False, out_of_memory = False,
      files = [(''key.pem'', PlainKey), (''enc.pem'', EncryptedKey ''secret'')],
      engine_rejects = [(Set_cipher_list ''NONE'', ''no cipher match'')]\<rparr>"

definition configured_ctx :: ssl_ctx where
  "configured_ctx =
     \<lparr>ssl_method = TLSv1_method, verify_mode = SSL_VERIFY_PEER, ssl_options = 0x01000000,
      session_cache_mode = SSL_SESS_CACHE_SERVER, passwd_cb_set = False,
      private_key = None, verify_locations = None, certificate_chain = None,
      cipher_list = None, session_id_context = None\<rparr>"

definition configured_state :: state where
  "configured_state =
     \<lparr>userdata = [Context \<lparr>ctx_context = Some 0, ctx_mode = MD_CTX_SERVER\<rparr>],
      ssl_ctxs = [Some configured_ctx],
      free_log = [], lua_memory_full = False, out_of_memory = False,
      files = [(''key.pem'', PlainKey), (''enc.pem'', EncryptedKey ''secret'')],
      engine_rejects = [(Set_cipher_list ''NONE'', ''no cipher match'')]\<rparr>"

text \<open>A sample of the option table, with OpenSSL's codes.\<close>

definition sample_options :: "ssl_option_t list" where
  "sample_options =
     [\<lparr>opt_name = ''no_sslv2'', opt_code = 0x01000000\<rparr>,
      \<lparr>opt_name = ''no_sslv3'', opt_code = 0x02000000\<rparr>,
      \<lparr>opt_name = ''single_dh_use'', opt_code = 0x00100000\<rparr>]"

section \<open>Properties\<close>

subsection \<open>C strings, the stack and the handle\<close>

lemma cstr_no_NUL: "NUL \<notin> set (cstr s)"
  by (auto simp add: cstr_def dest: set_takeWhileD)

lemma cstr_id: "NUL \<notin> set s \<Longrightarrow> cstr s = s"
  by (auto simp add: cstr_def)

lemma cstr_cut: "NUL \<notin> set s \<Longrightarrow> cstr (s @ NUL # t) = s"
  by (induction s) (auto simp add: cstr_def)

lemma index2adr_1: "index2adr (v # st) (Suc 0) = Some v"
  by (simp add: index2adr_def)


lemma index2adr_3: "index2adr (v # w # x # st) 3 = Some x"
  by (simp add: index2adr_def)

lemma checkctx_handle:
  "h < length (userdata s) \<Longrightarrow> userdata s ! h = Context c \<Longrightarrow>
   checkctx s (LUserdata h # st) (Suc 0) = Inr (h, c)"
  by (simp add: checkctx_def index2adr_1)

lemma ctx_getcontext_handle:
  "h < length (userdata s) \<Longrightarrow> userdata s ! h = Context c \<Longrightarrow>
   ctx_getcontext s (LUserdata h # st) (Suc 0) = Inr (ctx_context c)"
  by (simp add: ctx_getcontext_def checkctx_handle)

lemma checklstring_LString: "checklstring i (Some (LString t)) = Inr t"
  by (simp add: checklstring_def)

lemma lua_return_push1: "lua_return (st @ [a]) (Suc 0) = [a]"
  by (simp add: lua_return_def)

lemma lua_return_push2: "lua_return (st @ [a, b]) 2 = [a, b]"
  by (simp add: lua_return_def)

lemma handle_ctx_live:
  "handle_ctx s h = Some e \<Longrightarrow>
   \<exists>c p. h < length (userdata s) \<and> userdata s ! h = Context c \<and> ctx_context c = Some p \<and>
         p < length (ssl_ctxs s) \<and> ssl_ctxs s ! p = Some e"
  by (auto simp add: handle_ctx_def deref_def split: if_splits udata.splits option.splits)


lemmas stack_simps = lua_return_def index2adr_def lua_type_def lua_gettop_def
  luaL_checkstring_def checklstring_def checkctx_def ctx_getcontext_def
  strcmp_def cstr_def NUL_def

lemmas engine_simps = deref_def with_ctx_def SSL_CTX_set_verify_def SSL_CTX_set_options_def
  SSL_CTX_set_session_cache_mode_def SSL_CTX_set_default_passwd_cb_def SSL_CTX_new_def
  SSL_CTX_free_def default_ctx_def

text \<open>The state \<open>fresh_state\<close> is what \<^verbatim>\<open>create("tlsv1")\<close> leaves.\<close>

lemma create_fresh_state:
  "create initial_state [LString ''tlsv1''] = Inr (fresh_state, [LUserdata 0])"
  by (simp add: create_def str2method_def lua_newuserdata_def stack_simps engine_simps
      initial_state_def fresh_state_def)

subsection \<open>Rejected tokens\<close>

lemma set_verify_flag_recognized:
  "fst (set_verify_flag t flag)
     \<longleftrightarrow> cstr t \<in> {''none'', ''peer'', ''client_once'', ''fail_if_no_peer_cert''}"
  by (simp add: set_verify_flag_def strcmp_def cstr_id NUL_def)

lemma set_verify_loop_rejects:
  "\<exists>t\<in>set ts. cstr t \<notin> {''none'', ''peer'', ''client_once'', ''fail_if_no_peer_cert''} \<Longrightarrow>
   \<exists>flag'. set_verify_loop (map LString ts) i flag = Inr (False, flag')"
proof (induction ts arbitrary: i flag)
  case Nil
  then show ?case by simp
next
  case (Cons t ts)
  show ?case
  proof (cases "fst (set_verify_flag t flag)")
    case True
    then have "cstr t \<in> {''none'', ''peer'', ''client_once'', ''fail_if_no_peer_cert''}"
      by (simp only: set_verify_flag_recognized)
    with Cons.prems
    have "\<exists>t\<in>set ts. cstr t \<notin> {''none'', ''peer'', ''client_once'', ''fail_if_no_peer_cert''}"
      by auto
    from Cons.IH [OF this] True show ?thesis
      by (cases "set_verify_flag t flag") (simp add: checklstring_LString)
  next
    case False
    then show ?thesis
      by (cases "set_verify_flag t flag") (simp add: checklstring_LString)
  qed
qed

lemma set_option_flag_recognized:
  "fst (set_option_flag T t flag) \<longleftrightarrow> cstr t \<in> cstr ` opt_name ` set T"
  by (induction T) (auto simp add: strcmp_def)

lemma set_options_loop_rejects:
  "\<exists>t\<in>set ts. cstr t \<notin> cstr ` opt_name ` set T \<Longrightarrow>
   \<exists>flag'. set_options_loop T (map LString ts) i flag = Inr (False, flag')"
proof (induction ts arbitrary: i flag)
  case Nil
  then show ?case by simp
next
  case (Cons t ts)
  show ?case
  proof (cases "fst (set_option_flag T t flag)")
    case True
    then have "cstr t \<in> cstr ` opt_name ` set T"
      by (simp only: set_option_flag_recognized)
    with Cons.prems have "\<exists>t\<in>set ts. cstr t \<notin> cstr ` opt_name ` set T"
      by auto
    from Cons.IH [OF this] True show ?thesis
      by (cases "set_option_flag T t flag") (simp add: checklstring_LString)
  next
    case False
    then show ?thesis
      by (cases "set_option_flag T t flag") (simp add: checklstring_LString)
  qed
qed

lemma set_verify_rejects:
  assumes "h < length (userdata s)" and "userdata s ! h = Context c"
    and bad: "\<exists>t\<in>set ts. cstr t \<notin> {''none'', ''peer'', ''client_once'', ''fail_if_no_peer_cert''}"
  shows "set_verify s (LUserdata h # map LString ts)
       = Inr (s, [LBoolean False, LString ''invalid verify option''])"
proof -
  from bad have "ts \<noteq> []" by auto
  then have top: "lua_gettop (LUserdata h # map LString ts) > 1"
    by (cases ts) (simp_all add: lua_gettop_def)
  from set_verify_loop_rejects [OF bad] obtain flag' where
    "set_verify_loop (map LString ts) 2 0 = Inr (False, flag')" by blast
  with top assms(1,2) show ?thesis
    by (simp add: set_verify_def ctx_getcontext_handle lua_return_def)
qed

lemma set_options_rejects:
  assumes "h < length (userdata s)" and "userdata s ! h = Context c"
    and bad: "\<exists>t\<in>set ts. cstr t \<notin> cstr ` opt_name ` set T"
  shows "set_options T s (LUserdata h # map LString ts)
       = Inr (s, [LBoolean False, LString ''invalid option''])"
proof -
  from bad have "ts \<noteq> []" by auto
  then have top: "lua_gettop (LUserdata h # map LString ts) > 1"
    by (cases ts) (simp_all add: lua_gettop_def)
  from set_options_loop_rejects [OF bad] obtain flag' where
    "set_options_loop T (map LString ts) 2 0 = Inr (False, flag')" by blast
  with top assms(1,2) show ?thesis
    by (simp add: set_options_def ctx_getcontext_handle lua_return_def)
qed

text \<open>
  C1, as the code has it. The code compares a token as a C string, that is, up to
  its first NUL. A call of \<^verbatim>\<open>setverify\<close> or \<^verbatim>\<open>setoptions\<close> on a context handle whose tokens
  hold at least one whose C string is not a recognized name returns \<^verbatim>\<open>false\<close> and a fixed
  message (\<^verbatim>\<open>"invalid verify option"\<close>, \<^verbatim>\<open>"invalid option"\<close>), and leaves the whole state,
  the engine's verify mode and option bits included, as it was before the call:
  nothing of the valid prefix is committed. The message does not name the token.
\<close>

theorem flag_aggregation_atomic:
  assumes "h < length (userdata s)" and "userdata s ! h = Context c"
  shows "((\<exists>t\<in>set ts. cstr t \<notin> {''none'', ''peer'', ''client_once'', ''fail_if_no_peer_cert''}) \<longrightarrow>
            set_verify s (LUserdata h # map LString ts)
              = Inr (s, [LBoolean False, LString ''invalid verify option''])) \<and>
         ((\<exists>t\<in>set ts. cstr t \<notin> cstr ` opt_name ` set T) \<longrightarrow>
            set_options T s (LUserdata h # map LString ts)
              = Inr (s, [LBoolean False, LString ''invalid option'']))"
  using assms by (simp add: set_verify_rejects set_options_rejects)

theorem flag_aggregation_atomic_witness:
  "0 < length (userdata configured_state) \<and>
   userdata configured_state ! 0 = Context \<lparr>ctx_context = Some 0, ctx_mode = MD_CTX_SERVER\<rparr> \<and>
   (\<exists>t\<in>set [''peer'', ''bogus''].
      cstr t \<notin> {''none'', ''peer'', ''client_once'', ''fail_if_no_peer_cert''}) \<and>
   set_verify configured_state (LUserdata 0 # map LString [''peer'', ''bogus''])
     = Inr (configured_state, [LBoolean False, LString ''invalid verify option'']) \<and>
   (\<exists>t\<in>set [''peer'', ''bogus'']. cstr t \<notin> cstr ` opt_name ` set sample_options) \<and>
   set_options sample_options configured_state (LUserdata 0 # map LString [''peer'', ''bogus''])
     = Inr (configured_state, [LBoolean False, LString ''invalid option''])"
  using flag_aggregation_atomic
    [where h = 0 and s = configured_state
       and c = "\<lparr>ctx_context = Some 0, ctx_mode = MD_CTX_SERVER\<rparr>"
       and ts = "[''peer'', ''bogus'']" and T = sample_options]
  by (simp add: configured_state_def sample_options_def cstr_def NUL_def)

text \<open>
  C1, as the claim states it, fails twice. The error of the claim's own example,
  \<^verbatim>\<open>setverify(h, "peer", "bogus")\<close>, is the pair of \<^verbatim>\<open>false\<close> and the fixed message, the same
  pair that another bad token gets, so the result does not identify the token. And a
  token that is not a recognized name but whose C string is one, \<^verbatim>\<open>"peer"\<close> followed by a
  NUL and \<^verbatim>\<open>"j"\<close>, is accepted: the call returns \<^verbatim>\<open>true\<close> and commits \<^verbatim>\<open>SSL_VERIFY_PEER\<close>.
\<close>

theorem rejected_token_not_identified:
  "set_verify fresh_state [LUserdata 0, LString ''peer'', LString ''bogus'']
     = Inr (fresh_state, [LBoolean False, LString ''invalid verify option'']) \<and>
   set_verify fresh_state [LUserdata 0, LString ''peer'', LString ''wrong'']
     = Inr (fresh_state, [LBoolean False, LString ''invalid verify option'']) \<and>
   set_options sample_options fresh_state [LUserdata 0, LString ''no_sslv2'', LString ''bogus'']
     = Inr (fresh_state, [LBoolean False, LString ''invalid option'']) \<and>
   ''peer'' @ NUL # ''j'' \<notin> {''none'', ''peer'', ''client_once'', ''fail_if_no_peer_cert''} \<and>
   set_verify fresh_state [LUserdata 0, LString (''peer'' @ NUL # ''j'')]
     = Inr (fresh_state
              \<lparr>ssl_ctxs := [Some ((default_ctx TLSv1_method)\<lparr>verify_mode := SSL_VERIFY_PEER\<rparr>)]\<rparr>,
            [LBoolean True])"
  by (simp add: set_verify_def set_options_def stack_simps engine_simps set_verify_flag_def
      fresh_state_def sample_options_def SSL_VERIFY_NONE_def SSL_VERIFY_PEER_def)

subsection \<open>The password buffer\<close>

lemma strncpy_shape:
  "strncpy buf src n
     = take n (cstr src) @ replicate (n - length (cstr src)) NUL @ drop n buf"
  by (simp add: strncpy_def min_def)

lemma replicate_update_same: "(replicate k x)[j := x] = replicate k x"
  by (induction k arbitrary: j) (simp_all split: nat.split)

lemma terminated_list:
  assumes "0 < n"
  shows "(take n c @ replicate (n - length c) NUL @ zs)[n - Suc 0 := NUL]
       = take (n - Suc 0) c @ replicate (n - min (length c) (n - Suc 0)) NUL @ zs"
proof (cases "length c < n")
  case True
  then have m: "min (length c) (n - Suc 0) = length c" by simp
  from True have t: "take n c = c" "take (n - Suc 0) c = c" by simp_all
  from True have i: "\<not> n - Suc 0 < length c" "n - Suc 0 - length c < n - length c"
    by simp_all
  have "(c @ replicate (n - length c) NUL @ zs)[n - Suc 0 := NUL]
      = c @ (replicate (n - length c) NUL @ zs)[n - Suc 0 - length c := NUL]"
    using i(1) by (simp only: list_update_append if_False)
  also have "\<dots> = c @ (replicate (n - length c) NUL)[n - Suc 0 - length c := NUL] @ zs"
    using i(2) by (simp only: list_update_append length_replicate if_True)
  also have "\<dots> = c @ replicate (n - length c) NUL @ zs"
    by (simp only: replicate_update_same)
  finally show ?thesis
    by (simp only: m t)
next
  case False
  then have m: "min (length c) (n - Suc 0) = n - Suc 0" by simp
  from False assms have "n - Suc 0 < length c" by simp
  then have "take (Suc (n - Suc 0)) c = take (n - Suc 0) c @ [c ! (n - Suc 0)]"
    by (rule take_Suc_conv_app_nth)
  with assms have t: "take n c = take (n - Suc 0) c @ [c ! (n - Suc 0)]"
    by simp
  from False assms have r: "n - (n - Suc 0) = Suc 0" by simp
  from False assms show ?thesis
    by (simp add: m t r list_update_append)
qed

lemma terminated_buffer:
  assumes "0 < n"
  shows "(strncpy buf src n)[n - Suc 0 := NUL]
       = take (n - Suc 0) (cstr src)
           @ replicate (n - min (strlen src) (n - Suc 0)) NUL @ drop n buf"
  unfolding strncpy_shape strlen_def using assms by (rule terminated_list)

lemma strlen_terminated:
  assumes "NUL \<notin> set xs"
  shows "strlen (xs @ NUL # ys) = length xs"
  using assms by (simp add: strlen_def cstr_cut)

lemma strlen_terminated_buffer:
  assumes "0 < n"
  shows "strlen ((strncpy buf src n)[n - Suc 0 := NUL]) = min (strlen src) (n - Suc 0)"
proof -
  from assms have "0 < n - min (strlen src) (n - Suc 0)" by simp
  then obtain k where k: "n - min (strlen src) (n - Suc 0) = Suc k"
    by (cases "n - min (strlen src) (n - Suc 0)") auto
  have "NUL \<notin> set (take (n - Suc 0) (cstr src))"
    using cstr_no_NUL [of src] by (auto dest: in_set_takeD)
  then have a: "strlen (take (n - Suc 0) (cstr src) @ NUL # (replicate k NUL @ drop n buf))
      = length (take (n - Suc 0) (cstr src))"
    by (rule strlen_terminated)
  have b: "length (take (n - Suc 0) (cstr src)) = min (strlen src) (n - Suc 0)"
    by (simp add: strlen_def)
  have c: "(strncpy buf src n)[n - Suc 0 := NUL]
      = take (n - Suc 0) (cstr src) @ NUL # (replicate k NUL @ drop n buf)"
    by (simp only: terminated_buffer [OF assms] k replicate_Suc append_Cons)
  show ?thesis
    by (simp only: a b c)
qed

lemma copy_passwd_top:
  assumes "st \<noteq> []" and "lua_tostring (last st) = Some src"
    and "0 < sz" and "nat sz \<le> length buf"
  shows "copy_passwd st buf sz
       = Inr (butlast st @ [LString src],
              take (nat sz - 1) (cstr src)
                @ replicate (nat sz - min (strlen src) (nat sz - 1)) NUL @ drop (nat sz) buf,
              int (min (strlen src) (nat sz - 1)))"
proof -
  from assms(3) have n: "0 < nat sz" by simp
  show ?thesis
    using assms
    by (simp add: copy_passwd_def Let_def strlen_terminated_buffer [OF n])
       (simp add: terminated_buffer [OF n])
qed

lemma passwd_cb_string:
  assumes "lua_tostring (last (LString pw # rest)) = Some src"
    and "0 < sz" and "nat sz \<le> length buf"
  shows "passwd_cb (h # f # LString pw # rest) buf sz flag
       = Inr (butlast (h # f # LString pw # rest) @ [LString src],
              take (nat sz - 1) (cstr src)
                @ replicate (nat sz - min (strlen src) (nat sz - 1)) NUL @ drop (nat sz) buf,
              int (min (strlen src) (nat sz - 1)))"
proof -
  have "last (h # f # LString pw # rest) = last (LString pw # rest)" by simp
  with assms(1) have top: "lua_tostring (last (h # f # LString pw # rest)) = Some src"
    by (simp only:)
  have "passwd_cb (h # f # LString pw # rest) buf sz flag
      = copy_passwd (h # f # LString pw # rest) buf sz"
    by (simp add: passwd_cb_def index2adr_3)
  also have "\<dots> = Inr (butlast (h # f # LString pw # rest) @ [LString src],
              take (nat sz - 1) (cstr src)
                @ replicate (nat sz - min (strlen src) (nat sz - 1)) NUL @ drop (nat sz) buf,
              int (min (strlen src) (nat sz - 1)))"
    using top assms(2,3) by (intro copy_passwd_top) simp_all
  finally show ?thesis .
qed

text \<open>
  C9, as the code has it. With a string as the third argument of \<^verbatim>\<open>loadkey\<close>, the hook
  called with a buffer of at least \<open>sz > 0\<close> characters copies the string on top of the
  stack, which is the password when the password is the last argument of the call
  (\<open>rest = []\<close>, \<open>src = pw\<close>). It copies it as a C string, up to its first NUL: it stores
  the first \<open>sz - 1\<close> characters of that C string followed by NULs up to \<open>sz\<close>, leaves the
  rest of the buffer alone, and returns \<open>min L (sz - 1)\<close>, where \<open>L\<close> is the length of the
  C string: the last character of the capacity is kept for the terminator.
\<close>

theorem passwd_cb_static:
  assumes "lua_tostring (last (LString pw # rest)) = Some src"
    and "0 < sz" and "nat sz \<le> length buf"
  shows "passwd_cb (h # f # LString pw # rest) buf sz flag
       = Inr (butlast (h # f # LString pw # rest) @ [LString src],
              take (nat sz - 1) (cstr src)
                @ replicate (nat sz - min (strlen src) (nat sz - 1)) NUL @ drop (nat sz) buf,
              int (min (strlen src) (nat sz - 1)))"
  using assms by (rule passwd_cb_string)

theorem passwd_cb_static_witness:
  "lua_tostring (last (LString ''abcd'' # [])) = Some ''abcd'' \<and>
   (0::int) < 8 \<and> nat 8 \<le> length ''xxxxxxxxxx'' \<and>
   passwd_cb (LUserdata 0 # LString ''enc.pem'' # LString ''abcd'' # []) ''xxxxxxxxxx'' 8 0
     = Inr ([LUserdata 0, LString ''enc.pem'', LString ''abcd''],
            ''abcd'' @ [NUL, NUL, NUL, NUL] @ ''xx'', 4)"
  using passwd_cb_static
    [where sz = 8 and buf = "''xxxxxxxxxx''" and pw = "''abcd''" and rest = "[]"
       and src = "''abcd''" and h = "LUserdata 0" and f = "LString ''enc.pem''" and flag = 0]
  by (simp add: strlen_def cstr_def NUL_def numeral_eq_Suc)

text \<open>
  C9, as the claim states it, fails in three ways. A password of four characters in
  a buffer of capacity four is cut to three characters and the hook returns 3, not
  \<open>min 4 4 = 4\<close>. A password of five bytes with a NUL as its third is copied up to the
  NUL and the hook returns 2. And when the call has a further argument after the
  password, the hook copies that argument, the top of the stack, not the password.
\<close>

theorem passwd_cb_full_buffer:
  "passwd_cb [LUserdata 0, LString ''enc.pem'', LString ''abcd''] ''xxxx'' 4 0
     = Inr ([LUserdata 0, LString ''enc.pem'', LString ''abcd''], ''abc'' @ [NUL], 3) \<and>
   int (min (length ''abcd'') 4) \<noteq> 3 \<and>
   passwd_cb [LUserdata 0, LString ''enc.pem'', LString (''ab'' @ NUL # ''cd'')] ''xxxxxxxx'' 8 0
     = Inr ([LUserdata 0, LString ''enc.pem'', LString (''ab'' @ NUL # ''cd'')],
            ''ab'' @ [NUL, NUL, NUL, NUL, NUL, NUL], 2) \<and>
   int (min (length (''ab'' @ NUL # ''cd'')) 7) \<noteq> 2 \<and>
   passwd_cb [LUserdata 0, LString ''enc.pem'', LString ''abcd'', LString ''zz''] ''xxxx'' 4 0
     = Inr ([LUserdata 0, LString ''enc.pem'', LString ''abcd'', LString ''zz''],
            ''zz'' @ [NUL, NUL], 2)"
  by (simp add: passwd_cb_def copy_passwd_def strncpy_def strlen_def stack_simps
      numeral_eq_Suc)

subsection \<open>The empty token sequence\<close>

text \<open>
  C2 fails on the code for the session cache mode. On a context whose verify mode,
  option bits and session cache mode are set, \<^verbatim>\<open>setverify\<close> and \<^verbatim>\<open>setoptions\<close> without
  tokens leave the state as it is (their guard \<^verbatim>\<open>if (max > 1)\<close>), but
  \<^verbatim>\<open>setsessioncachemode\<close> without tokens, which has no such guard, commits the mode 0
  and so replaces the mode \<^verbatim>\<open>SSL_SESS_CACHE_SERVER\<close> by \<^verbatim>\<open>SSL_SESS_CACHE_OFF\<close>.
\<close>

theorem empty_session_cache_mode_resets:
  "set_verify configured_state [LUserdata 0] = Inr (configured_state, [LBoolean True]) \<and>
   set_options T configured_state [LUserdata 0] = Inr (configured_state, [LBoolean True]) \<and>
   map_option session_cache_mode (handle_ctx configured_state 0) = Some SSL_SESS_CACHE_SERVER \<and>
   set_session_cache_mode configured_state [LUserdata 0]
     = Inr (configured_state
              \<lparr>ssl_ctxs := [Some (configured_ctx\<lparr>session_cache_mode := SSL_SESS_CACHE_OFF\<rparr>)]\<rparr>,
            [LBoolean True])"
  by (simp add: set_verify_def set_options_def set_session_cache_mode_def stack_simps
      engine_simps configured_state_def configured_ctx_def handle_ctx_def SSL_SESS_CACHE_OFF_def)

subsection \<open>Loading a key without a password\<close>

text \<open>
  C3 fails on the code for the absent argument. \<^verbatim>\<open>loadkey(h, "key.pem")\<close> with no third
  argument, against an unencrypted key, raises \<^verbatim>\<open>"invalid callback value"\<close>, with the
  state untouched: the type of an absent slot is \<^verbatim>\<open>LUA_TNONE\<close>, which the \<^verbatim>\<open>switch\<close> sends to
  \<^verbatim>\<open>default\<close>. The same call with an explicit \<^verbatim>\<open>nil\<close> loads the key and returns \<^verbatim>\<open>true\<close>.
\<close>

theorem load_key_absent_password_raises:
  "load_key fresh_state [LUserdata 0, LString ''key.pem'']
     = Inl (RuntimeError ''invalid callback value'', fresh_state) \<and>
   load_key fresh_state [LUserdata 0, LString ''key.pem'', LNil]
     = Inr (fresh_state
              \<lparr>ssl_ctxs := [Some ((default_ctx TLSv1_method)\<lparr>private_key := Some ''key.pem''\<rparr>)]\<rparr>,
            [LBoolean True])"
  by (simp add: load_key_def load_key_file_def SSL_CTX_use_PrivateKey_file_def stack_simps
      engine_simps fresh_state_def)

subsection \<open>Creation\<close>

lemma str2method_recognized:
  "str2method name \<noteq> None \<longleftrightarrow> cstr name \<in> {''sslv3'', ''tlsv1'', ''sslv23''}"
  by (simp add: str2method_def strcmp_def cstr_id NUL_def)

text \<open>
  C4, as the code has it. The code compares the protocol as a C string, up to its
  first NUL. For each string whose C string is \<^verbatim>\<open>"sslv3"\<close>, \<^verbatim>\<open>"tlsv1"\<close> or \<^verbatim>\<open>"sslv23"\<close>, with
  the Lua allocator and the engine able to allocate, \<^verbatim>\<open>create\<close> returns one value, a
  handle at an address no block had before, whose block holds a new engine context
  and the mode \<^verbatim>\<open>MD_CTX_INVALID\<close> (unset). For every other string it returns \<^verbatim>\<open>nil\<close> and
  \<^verbatim>\<open>"invalid protocol"\<close> and leaves the state as it was: no userdata block and no engine
  context is allocated.
\<close>

theorem create_protocols:
  "(cstr name \<in> {''sslv3'', ''tlsv1'', ''sslv23''} \<and> \<not> lua_memory_full s \<and> \<not> out_of_memory s \<longrightarrow>
      (\<exists>m. str2method name = Some m \<and>
        create s (LString name # rest)
         = Inr (s\<lparr>userdata := userdata s
                      @ [Context \<lparr>ctx_context = Some (length (ssl_ctxs s)),
                                  ctx_mode = MD_CTX_INVALID\<rparr>],
                  ssl_ctxs := ssl_ctxs s @ [Some (default_ctx m)]\<rparr>,
                [LUserdata (length (userdata s))]))) \<and>
   (cstr name \<notin> {''sslv3'', ''tlsv1'', ''sslv23''} \<longrightarrow>
      create s (LString name # rest) = Inr (s, [LNil, LString ''invalid protocol'']))"
proof (intro conjI impI)
  assume a: "cstr name \<in> {''sslv3'', ''tlsv1'', ''sslv23''} \<and> \<not> lua_memory_full s
      \<and> \<not> out_of_memory s"
  then obtain m where m: "str2method name = Some m"
    using str2method_recognized [of name] by auto
  with a show "\<exists>m. str2method name = Some m \<and>
        create s (LString name # rest)
         = Inr (s\<lparr>userdata := userdata s
                      @ [Context \<lparr>ctx_context = Some (length (ssl_ctxs s)),
                                  ctx_mode = MD_CTX_INVALID\<rparr>],
                  ssl_ctxs := ssl_ctxs s @ [Some (default_ctx m)]\<rparr>,
                [LUserdata (length (userdata s))])"
    by (simp add: create_def lua_newuserdata_def luaL_checkstring_def checklstring_def
        index2adr_1 lua_return_def SSL_CTX_new_def)
next
  assume "cstr name \<notin> {''sslv3'', ''tlsv1'', ''sslv23''}"
  then have "str2method name = None"
    using str2method_recognized [of name] by simp
  then show "create s (LString name # rest) = Inr (s, [LNil, LString ''invalid protocol''])"
    by (simp add: create_def luaL_checkstring_def checklstring_def index2adr_1 lua_return_def)
qed

theorem create_protocols_witness:
  "cstr ''tlsv1'' \<in> {''sslv3'', ''tlsv1'', ''sslv23''} \<and> \<not> lua_memory_full initial_state \<and>
   \<not> out_of_memory initial_state \<and>
   str2method ''tlsv1'' = Some TLSv1_method \<and>
   create initial_state (LString ''tlsv1'' # []) = Inr (fresh_state, [LUserdata 0]) \<and>
   cstr ''sslv2'' \<notin> {''sslv3'', ''tlsv1'', ''sslv23''} \<and>
   create initial_state (LString ''sslv2'' # [])
     = Inr (initial_state, [LNil, LString ''invalid protocol''])"
  using create_protocols [where name = "''tlsv1''" and s = initial_state and rest = "[]"]
    create_protocols [where name = "''sslv2''" and s = initial_state and rest = "[]"]
  by (simp add: initial_state_def fresh_state_def str2method_def strcmp_def cstr_def NUL_def)

text \<open>
  C4, as the claim states it, fails: the string \<^verbatim>\<open>"tlsv1"\<close> followed by a NUL and \<^verbatim>\<open>"x"\<close> is
  none of the three identifiers, yet \<^verbatim>\<open>create\<close> returns a handle for it and allocates a
  userdata block and an engine context.
\<close>

theorem create_cuts_at_nul:
  "''tlsv1'' @ NUL # ''x'' \<notin> {''sslv3'', ''tlsv1'', ''sslv23''} \<and>
   create initial_state [LString (''tlsv1'' @ NUL # ''x'')] = Inr (fresh_state, [LUserdata 0])"
  by (simp add: create_def str2method_def lua_newuserdata_def stack_simps engine_simps
      initial_state_def fresh_state_def)

subsection \<open>The mode\<close>

text \<open>
  C6 fails on the code for the error result. \<^verbatim>\<open>setmode\<close> records \<^verbatim>\<open>"server"\<close> and
  \<^verbatim>\<open>"client"\<close> and returns \<^verbatim>\<open>true\<close>; on another string it leaves the mode alone and
  pushes \<^verbatim>\<open>false\<close> and \<^verbatim>\<open>"invalid mode"\<close>, but returns the count 1, so that the caller
  receives the message alone, without the failure flag.
\<close>

theorem set_mode_invalid_returns_message_only:
  "set_mode fresh_state [LUserdata 0, LString ''server'']
     = Inr (fresh_state\<lparr>userdata := [Context \<lparr>ctx_context = Some 0, ctx_mode = MD_CTX_SERVER\<rparr>]\<rparr>,
            [LBoolean True]) \<and>
   set_mode fresh_state [LUserdata 0, LString ''client'']
     = Inr (fresh_state\<lparr>userdata := [Context \<lparr>ctx_context = Some 0, ctx_mode = MD_CTX_CLIENT\<rparr>]\<rparr>,
            [LBoolean True]) \<and>
   set_mode fresh_state [LUserdata 0, LString ''bogus'']
     = Inr (fresh_state, [LString ''invalid mode''])"
  by (simp add: set_mode_def stack_simps fresh_state_def)

subsection \<open>Destruction\<close>

text \<open>
  C7. On a context handle, \<^verbatim>\<open>meth_destroy\<close> returns nothing and leaves a state in which
  the block's engine pointer is NULL and the engine object is released; the log of
  \<^verbatim>\<open>SSL_CTX_free\<close> grows by the pointer the block held, once, or not at all when it was
  NULL already. A further \<^verbatim>\<open>meth_destroy\<close> in that state returns nothing and leaves
  the state, the log included, as it is.
\<close>

theorem destroy_idempotent:
  assumes "h < length (userdata s)" and "userdata s ! h = Context c"
  shows "\<exists>s1. meth_destroy s (LUserdata h # rest) = Inr (s1, []) \<and>
              meth_destroy s1 (LUserdata h # rest) = Inr (s1, []) \<and>
              userdata s1 ! h = Context (c\<lparr>ctx_context := None\<rparr>) \<and>
              handle_ctx s1 h = None \<and>
              free_log s1 = free_log s @ (case ctx_context c of None \<Rightarrow> [] | Some p \<Rightarrow> [p])"
proof (cases "ctx_context c")
  case None
  with assms show ?thesis
    by (simp add: meth_destroy_def checkctx_handle lua_return_def handle_ctx_def deref_def)
next
  case (Some p)
  let ?s1 = "(SSL_CTX_free s p)\<lparr>userdata := (userdata (SSL_CTX_free s p))
                [h := Context (c\<lparr>ctx_context := None\<rparr>)]\<rparr>"
  from assms Some have 1: "meth_destroy s (LUserdata h # rest) = Inr (?s1, [])"
    by (simp add: meth_destroy_def checkctx_handle lua_return_def Let_def)
  from assms have 2: "h < length (userdata ?s1)"
    "userdata ?s1 ! h = Context (c\<lparr>ctx_context := None\<rparr>)"
    by (simp_all add: SSL_CTX_free_def)
  have 3: "meth_destroy ?s1 (LUserdata h # rest) = Inr (?s1, [])"
    by (simp add: meth_destroy_def checkctx_handle [OF 2] lua_return_def)
  from Some have 4:
    "free_log ?s1 = free_log s @ (case ctx_context c of None \<Rightarrow> [] | Some p \<Rightarrow> [p])"
    by (simp add: SSL_CTX_free_def)
  from 2 have 5: "handle_ctx ?s1 h = None"
    by (simp add: handle_ctx_def deref_def)
  from 1 2(2) 3 4 5 show ?thesis by blast
qed

theorem destroy_idempotent_witness:
  "0 < length (userdata configured_state) \<and>
   userdata configured_state ! 0 = Context \<lparr>ctx_context = Some 0, ctx_mode = MD_CTX_SERVER\<rparr> \<and>
   (\<exists>s1. meth_destroy configured_state (LUserdata 0 # []) = Inr (s1, []) \<and>
         meth_destroy s1 (LUserdata 0 # []) = Inr (s1, []) \<and>
         userdata s1 ! 0 = Context \<lparr>ctx_context = None, ctx_mode = MD_CTX_SERVER\<rparr> \<and>
         handle_ctx s1 0 = None \<and>
         free_log s1 = [0])"
  using destroy_idempotent
    [where h = 0 and s = configured_state and rest = "[]"
       and c = "\<lparr>ctx_context = Some 0, ctx_mode = MD_CTX_SERVER\<rparr>"]
  by (simp add: configured_state_def)

subsection \<open>Cumulative options\<close>

lemma set_option_flag_code:
  "t \<in> opt_name ` set T \<Longrightarrow> \<exists>code. \<forall>flag. set_option_flag T t flag = (True, flag OR code)"
  by (induction T) (auto simp add: strcmp_def)

lemma set_options_commits:
  assumes "h < length (userdata s)" and "userdata s ! h = Context c"
    and "ctx_context c = Some p" and "p < length (ssl_ctxs s)" and "ssl_ctxs s ! p = Some e"
    and "set_options_loop T (v # vs) 2 0 = Inr (True, flag)"
  shows "set_options T s (LUserdata h # v # vs)
       = Inr (s\<lparr>ssl_ctxs := (ssl_ctxs s)[p := Some (e\<lparr>ssl_options := ssl_options e OR flag\<rparr>)]\<rparr>,
              [LBoolean True])"
proof -
  let ?st = "LUserdata h # v # vs"
  have top: "lua_gettop ?st > 1"
    by (simp add: lua_gettop_def)
  have ctx: "ctx_getcontext s ?st 1 = Inr (Some p)"
    using assms(1,2,3) by (simp add: ctx_getcontext_handle)
  have loop: "set_options_loop T (drop 1 ?st) 2 0 = Inr (True, flag)"
    unfolding One_nat_def drop_Suc_Cons drop_0 by (rule assms(6))
  have eng: "SSL_CTX_set_options s (Some p) flag
      = Inr (s\<lparr>ssl_ctxs := (ssl_ctxs s)[p := Some (e\<lparr>ssl_options := ssl_options e OR flag\<rparr>)]\<rparr>)"
    using assms(4,5) by (simp add: SSL_CTX_set_options_def with_ctx_def deref_def)
  have ret: "lua_return (?st @ [LBoolean True]) 1 = [LBoolean True]"
    by (simp only: lua_return_push1 One_nat_def)
  show ?thesis
    unfolding set_options_def
    by (simp only: top ctx loop eng ret if_True sum.case prod.case bool.case)
qed

text \<open>
  C8. For two names \<open>a\<close> and \<open>b\<close> of the option table and a handle with a live engine
  context, \<^verbatim>\<open>setoptions(h, a, b)\<close>, \<^verbatim>\<open>setoptions(h, b, a)\<close> and \<^verbatim>\<open>setoptions(h, a)\<close> followed
  by \<^verbatim>\<open>setoptions(h, b)\<close> all return \<^verbatim>\<open>true\<close> and end in one and the same state, in which
  the engine's option bits are the bits it had before, ORed with the codes of \<open>a\<close> and
  \<open>b\<close>.
\<close>

theorem options_cumulative:
  assumes a: "a \<in> opt_name ` set T" and b: "b \<in> opt_name ` set T"
    and live: "handle_ctx s h = Some e"
  shows "\<exists>s1 s2 ca cb.
           set_option_flag T a 0 = (True, ca) \<and> set_option_flag T b 0 = (True, cb) \<and>
           set_options T s [LUserdata h, LString a] = Inr (s1, [LBoolean True]) \<and>
           set_options T s1 [LUserdata h, LString b] = Inr (s2, [LBoolean True]) \<and>
           set_options T s [LUserdata h, LString a, LString b] = Inr (s2, [LBoolean True]) \<and>
           set_options T s [LUserdata h, LString b, LString a] = Inr (s2, [LBoolean True]) \<and>
           map_option ssl_options (handle_ctx s2 h) = Some (ssl_options e OR ca OR cb)"
proof -
  from handle_ctx_live [OF live] obtain c p where
    h: "h < length (userdata s)" "userdata s ! h = Context c" and
    p: "ctx_context c = Some p" "p < length (ssl_ctxs s)" "ssl_ctxs s ! p = Some e"
    by blast
  from a obtain ca where fa: "\<And>flag. set_option_flag T a flag = (True, flag OR ca)"
    using set_option_flag_code by blast
  from b obtain cb where fb: "\<And>flag. set_option_flag T b flag = (True, flag OR cb)"
    using set_option_flag_code by blast
  let ?e1 = "e\<lparr>ssl_options := ssl_options e OR ca\<rparr>"
  let ?s1 = "s\<lparr>ssl_ctxs := (ssl_ctxs s)[p := Some ?e1]\<rparr>"
  let ?e2 = "e\<lparr>ssl_options := ssl_options e OR ca OR cb\<rparr>"
  let ?s2 = "s\<lparr>ssl_ctxs := (ssl_ctxs s)[p := Some ?e2]\<rparr>"
  have la: "set_options_loop T [LString a] 2 0 = Inr (True, ca)"
    by (simp add: checklstring_LString fa)
  have lb: "set_options_loop T [LString b] 2 0 = Inr (True, cb)"
    by (simp add: checklstring_LString fb)
  have lab: "set_options_loop T [LString a, LString b] 2 0 = Inr (True, ca OR cb)"
    by (simp add: checklstring_LString fa fb)
  have lba: "set_options_loop T [LString b, LString a] 2 0 = Inr (True, ca OR cb)"
    by (simp add: checklstring_LString fa fb or.commute)
  have 1: "set_options T s [LUserdata h, LString a] = Inr (?s1, [LBoolean True])"
    using set_options_commits [OF h p la] .
  have h1: "h < length (userdata ?s1)" "userdata ?s1 ! h = Context c"
    using h by simp_all
  have p1: "p < length (ssl_ctxs ?s1)" "ssl_ctxs ?s1 ! p = Some ?e1"
    using p by simp_all
  have 2: "set_options T ?s1 [LUserdata h, LString b] = Inr (?s2, [LBoolean True])"
    using set_options_commits [OF h1 p(1) p1 lb] by (simp add: or.assoc)
  have 3: "set_options T s [LUserdata h, LString a, LString b] = Inr (?s2, [LBoolean True])"
    using set_options_commits [OF h p lab] by simp
  have 4: "set_options T s [LUserdata h, LString b, LString a] = Inr (?s2, [LBoolean True])"
    using set_options_commits [OF h p lba] by simp
  have 5: "map_option ssl_options (handle_ctx ?s2 h) = Some (ssl_options e OR ca OR cb)"
    using h p by (simp add: handle_ctx_def deref_def)
  from fa [of 0] fb [of 0] 1 2 3 4 5 show ?thesis
    by (intro exI [of _ ?s1] exI [of _ ?s2] exI [of _ ca] exI [of _ cb]) simp
qed

theorem options_cumulative_witness:
  "''no_sslv2'' \<in> opt_name ` set sample_options \<and>
   ''single_dh_use'' \<in> opt_name ` set sample_options \<and>
   handle_ctx configured_state 0 = Some configured_ctx \<and>
   (\<exists>s1 s2 ca cb.
      set_option_flag sample_options ''no_sslv2'' 0 = (True, ca) \<and>
      set_option_flag sample_options ''single_dh_use'' 0 = (True, cb) \<and>
      set_options sample_options configured_state [LUserdata 0, LString ''no_sslv2'']
        = Inr (s1, [LBoolean True]) \<and>
      set_options sample_options s1 [LUserdata 0, LString ''single_dh_use'']
        = Inr (s2, [LBoolean True]) \<and>
      set_options sample_options configured_state
          [LUserdata 0, LString ''no_sslv2'', LString ''single_dh_use'']
        = Inr (s2, [LBoolean True]) \<and>
      set_options sample_options configured_state
          [LUserdata 0, LString ''single_dh_use'', LString ''no_sslv2'']
        = Inr (s2, [LBoolean True]) \<and>
      map_option ssl_options (handle_ctx s2 0) = Some (ssl_options configured_ctx OR ca OR cb))"
proof -
  have "''no_sslv2'' \<in> opt_name ` set sample_options"
    and "''single_dh_use'' \<in> opt_name ` set sample_options"
    and "handle_ctx configured_state 0 = Some configured_ctx"
    by (simp_all add: sample_options_def handle_ctx_def deref_def configured_state_def)
  then show ?thesis
    using options_cumulative
      [where a = "''no_sslv2''" and b = "''single_dh_use''" and T = sample_options
         and s = configured_state and h = 0 and e = configured_ctx]
    by blast
qed

subsection \<open>The verify token none\<close>

lemma set_verify_loop_index:
  "set_verify_loop (map LString ts) i flag = set_verify_loop (map LString ts) j flag"
proof (induction ts arbitrary: i j flag)
  case Nil
  show ?case by simp
next
  case (Cons t ts)
  show ?case
    by (cases "set_verify_flag t flag")
       (simp add: checklstring_LString Cons.IH [of "Suc i" _ "Suc j"] split: bool.split)
qed

lemma set_verify_flag_none: "set_verify_flag ''none'' flag = (True, flag)"
  by (simp add: set_verify_flag_def strcmp_def SSL_VERIFY_NONE_def)

lemma set_verify_loop_none:
  "set_verify_loop (map LString xs @ LString ''none'' # map LString ys) i flag
     = set_verify_loop (map LString xs @ map LString ys) i flag"
proof (induction xs arbitrary: i flag)
  case Nil
  show ?case
    by (simp add: checklstring_LString set_verify_flag_none
        set_verify_loop_index [of ys "Suc i" flag i])
next
  case (Cons x xs)
  show ?case
    by (cases "set_verify_flag x flag")
       (simp add: checklstring_LString Cons.IH split: bool.split)
qed

text \<open>
  C10, as the code has it. \<^verbatim>\<open>SSL_VERIFY_NONE\<close> is 0, so \<^verbatim>\<open>"none"\<close> adds no bit: for every
  non-empty sequence of tokens, a call of \<^verbatim>\<open>setverify\<close> with \<^verbatim>\<open>"none"\<close> inserted at any
  place has the result of the call without it, the same returned values and the
  same state, hence the same verify mode on the engine.
\<close>

theorem verify_none_identity:
  assumes "xs @ ys \<noteq> []"
  shows "set_verify s (H # map LString (xs @ ''none'' # ys))
       = set_verify s (H # map LString (xs @ ys))"
proof -
  let ?st = "H # map LString (xs @ ys)" and ?st' = "H # map LString (xs @ ''none'' # ys)"
  from assms have top: "lua_gettop ?st > 1"
    by (cases "xs @ ys") (simp_all add: lua_gettop_def)
  have top': "lua_gettop ?st' > 1"
    by (simp add: lua_gettop_def)
  have ctx: "ctx_getcontext s ?st' 1 = ctx_getcontext s ?st 1"
    by (simp add: ctx_getcontext_def checkctx_def index2adr_1)
  have loop: "set_verify_loop (drop 1 ?st') 2 0 = set_verify_loop (drop 1 ?st) 2 0"
    by (simp add: set_verify_loop_none)
  have ret: "lua_return (?st' @ [LBoolean True]) 1 = lua_return (?st @ [LBoolean True]) 1"
    "lua_return (?st' @ [LBoolean False, LString ''invalid verify option'']) 2
      = lua_return (?st @ [LBoolean False, LString ''invalid verify option'']) 2"
    by (simp_all only: lua_return_push1 lua_return_push2 One_nat_def)
  show ?thesis
    unfolding set_verify_def
    by (simp only: top top' ctx loop ret)
qed

theorem verify_none_identity_witness:
  "[] @ [''peer''] \<noteq> [] \<and>
   set_verify fresh_state (LUserdata 0 # map LString ([] @ ''none'' # [''peer'']))
     = set_verify fresh_state (LUserdata 0 # map LString ([] @ [''peer''])) \<and>
   set_verify fresh_state (LUserdata 0 # map LString ([] @ [''peer'']))
     = Inr (fresh_state
              \<lparr>ssl_ctxs := [Some ((default_ctx TLSv1_method)\<lparr>verify_mode := SSL_VERIFY_PEER\<rparr>)]\<rparr>,
            [LBoolean True])"
  using verify_none_identity [where xs = "[]" and ys = "[''peer'']" and s = fresh_state
      and H = "LUserdata 0"]
  by (simp add: set_verify_def stack_simps engine_simps set_verify_flag_def
      fresh_state_def SSL_VERIFY_NONE_def SSL_VERIFY_PEER_def)

text \<open>
  C10, as the claim states it, fails at the empty sequence, which \<^verbatim>\<open>setverify\<close>
  accepts: on a context whose verify mode is \<^verbatim>\<open>SSL_VERIFY_PEER\<close>, \<^verbatim>\<open>setverify(h)\<close> commits
  nothing and the mode stays, while \<^verbatim>\<open>setverify(h, "none")\<close> commits the mask 0.
\<close>

theorem none_on_empty_policy:
  "set_verify configured_state (LUserdata 0 # map LString ([] @ []))
     = Inr (configured_state, [LBoolean True]) \<and>
   map_option verify_mode (handle_ctx configured_state 0) = Some SSL_VERIFY_PEER \<and>
   set_verify configured_state (LUserdata 0 # map LString ([] @ ''none'' # []))
     = Inr (configured_state
              \<lparr>ssl_ctxs := [Some (configured_ctx\<lparr>verify_mode := SSL_VERIFY_NONE\<rparr>)]\<rparr>,
            [LBoolean True]) \<and>
   SSL_VERIFY_NONE \<noteq> SSL_VERIFY_PEER"
  by (simp add: set_verify_def stack_simps engine_simps set_verify_flag_def
      configured_state_def configured_ctx_def handle_ctx_def SSL_VERIFY_NONE_def SSL_VERIFY_PEER_def)

subsection \<open>Failures returned and failures raised\<close>












lemma index2adr_in_set: "index2adr st i = Some v \<Longrightarrow> v \<in> set st"
  by (auto simp add: index2adr_def split: if_splits)




















end
